theory Spec2Isabelle
  imports Complex_Main "HOL-Library.Word"
begin

section \<open>JavaScript strings\<close>

text \<open>
  A JavaScript string is a sequence of 16-bit code units; \<open>length\<close>, \<open>trim\<close>, \<open>split\<close> and the
  regular expressions of the source (none has the \<open>u\<close> flag) all work on code units.
  \<open>js\<close> turns a literal of the source into its code units.
\<close>

type_synonym jschar = "16 word"
type_synonym jsstring = "jschar list"

definition js :: "string \<Rightarrow> jsstring" where
  "js s = map of_char s"

text \<open>
  \<open>String.prototype.trim\<close> removes, from both ends, the code units of the productions
  WhiteSpace (TAB, VT, FF, SP, NBSP, ZWNBSP and the Unicode category Zs) and LineTerminator
  (LF, CR, LS, PS).
\<close>

definition isWhiteSpace :: "jschar \<Rightarrow> bool" where
  "isWhiteSpace c =
     (c = 0x0009 \<or> c = 0x000B \<or> c = 0x000C \<or> c = 0x0020 \<or> c = 0x00A0 \<or> c = 0xFEFF \<or>
      c = 0x1680 \<or> (0x2000 \<le> c \<and> c \<le> 0x200A) \<or> c = 0x202F \<or> c = 0x205F \<or> c = 0x3000)"

definition isLineTerminator :: "jschar \<Rightarrow> bool" where
  "isLineTerminator c = (c = 0x000A \<or> c = 0x000D \<or> c = 0x2028 \<or> c = 0x2029)"

definition isTrimmed :: "jschar \<Rightarrow> bool" where
  "isTrimmed c = (isWhiteSpace c \<or> isLineTerminator c)"

definition trim :: "jsstring \<Rightarrow> jsstring" where
  "trim s = rev (dropWhile isTrimmed (rev (dropWhile isTrimmed s)))"

text \<open>\<open>!s\<close> on a string: only the empty string is falsy.\<close>

definition falsy :: "jsstring \<Rightarrow> bool" where
  "falsy s = (s = [])"

section \<open>The regular expression of the mobile number rule\<close>

text \<open>
  The fragment of the pattern language that \<open>/^\d{10}$/\<close> uses: the two assertions, the
  class \<open>\d\<close> and the quantifier \<open>{n}\<close>. Without the \<open>m\<close> flag \<open>^\<close> and \<open>$\<close> hold at the two
  ends of the input only, and \<open>\d\<close> is \<open>[0-9]\<close>. A term matched at index \<open>i\<close> gives the index
  after the match, or nothing.
\<close>

datatype rx = AssertStart | AssertEnd | ClassDigit | Exactly rx nat

definition isDigit :: "jschar \<Rightarrow> bool" where
  "isDigit c = (0x0030 \<le> c \<and> c \<le> 0x0039)"

text \<open>The measure of the matcher's recursion: a term counts with its repetitions.\<close>

primrec rx_size :: "rx \<Rightarrow> nat" where
  "rx_size AssertStart = 1"
| "rx_size AssertEnd = 1"
| "rx_size ClassDigit = 1"
| "rx_size (Exactly r n) = Suc (rx_size r + n)"

function rx_term :: "rx \<Rightarrow> jsstring \<Rightarrow> nat \<Rightarrow> nat option" where
  "rx_term AssertStart s i = (if i = 0 then Some i else None)"
| "rx_term AssertEnd s i = (if i = length s then Some i else None)"
| "rx_term ClassDigit s i = (if i < length s \<and> isDigit (s ! i) then Some (Suc i) else None)"
| "rx_term (Exactly r 0) s i = Some i"
| "rx_term (Exactly r (Suc n)) s i =
     (case rx_term r s i of None \<Rightarrow> None | Some j \<Rightarrow> rx_term (Exactly r n) s j)"
  by pat_completeness auto
termination
  by (relation "measure (\<lambda>(r, s, i). rx_size r)") auto

fun rx_seq :: "rx list \<Rightarrow> jsstring \<Rightarrow> nat \<Rightarrow> nat option" where
  "rx_seq [] s i = Some i"
| "rx_seq (r # rs) s i = (case rx_term r s i of None \<Rightarrow> None | Some j \<Rightarrow> rx_seq rs s j)"

text \<open>
  \<open>RegExp.prototype.test\<close> of a pattern with neither \<open>g\<close> nor \<open>y\<close>: the match is tried at
  every index from 0 to the length of the input.
\<close>

definition rx_test :: "rx list \<Rightarrow> jsstring \<Rightarrow> bool" where
  "rx_test p s = list_ex (\<lambda>i. rx_seq p s i \<noteq> None) [0 ..< Suc (length s)]"

definition tenDigits :: "rx list" where
  "tenDigits = [AssertStart, Exactly ClassDigit 10, AssertEnd]"

section \<open>Login: form values, errors and the field validator\<close>

record Errors =
  name :: "jsstring option"
  mobileNumber :: "jsstring option"
  password :: "jsstring option"

record FormValues =
  name :: jsstring
  mobileNumber :: jsstring
  password :: jsstring

text \<open>\<open>Object.keys\<close> of an Errors object: the keys that were assigned, in the order of assignment.\<close>

definition Object_keys :: "Errors \<Rightarrow> jsstring list" where
  "Object_keys e =
     (if Errors.name e = None then [] else [js ''name'']) @
     (if Errors.mobileNumber e = None then [] else [js ''mobileNumber'']) @
     (if Errors.password e = None then [] else [js ''password''])"

definition noErrors :: Errors where
  "noErrors = \<lparr>Errors.name = None, Errors.mobileNumber = None, Errors.password = None\<rparr>"

text \<open>
  \<open>validateForm\<close> reads the form values of the current render and fills a fresh local object,
  one \<open>if\<close> after the other.
\<close>

definition validateForm :: "FormValues \<Rightarrow> Errors" where
  "validateForm formValues =
     (let errors = noErrors;
          errors = (if falsy (trim (name formValues))
                    then errors\<lparr>Errors.name := Some (js ''Name is required'')\<rparr>
                    else errors);
          errors = (if falsy (trim (mobileNumber formValues))
                    then errors\<lparr>Errors.mobileNumber := Some (js ''Mobile number is required'')\<rparr>
                    else if \<not> rx_test tenDigits (mobileNumber formValues)
                    then errors\<lparr>Errors.mobileNumber := Some (js ''Mobile number must be 10 digits'')\<rparr>
                    else errors);
          errors = (if falsy (trim (password formValues))
                    then errors\<lparr>Errors.password := Some (js ''Password is required'')\<rparr>
                    else if length (password formValues) < 6
                    then errors\<lparr>Errors.password := Some (js ''Password must be at least 6 characters'')\<rparr>
                    else errors)
      in errors)"

section \<open>Login: the environment of the component\<close>

text \<open>
  A \<open>Date\<close> is kept as its time value in local time, in milliseconds, where \<open>getDate\<close> and
  \<open>setDate\<close> do their arithmetic. \<open>Day\<close> and \<open>TimeWithinDay\<close> are those of the language
  definition. The calendar enters through \<open>monthStart\<close> only: the day number of the first day
  of the month that a day lies in. \<open>getDate\<close> is the day of the month, counted from 1;
  \<open>setDate\<close> keeps the time within the day and moves to the given day of the month the date
  lies in, running over into the following months.
\<close>

type_synonym Date = int

definition msPerDay :: int where
  "msPerDay = 86400000"

definition Day :: "Date \<Rightarrow> int" where
  "Day t = t div msPerDay"

definition TimeWithinDay :: "Date \<Rightarrow> int" where
  "TimeWithinDay t = t mod msPerDay"

text \<open>A thrown value, known by its conversion to a string.\<close>

datatype thrown = Thrown (toString: jsstring)

text \<open>Of the result of the provider's sign-in the code reads \<open>result.user.refreshToken\<close>.\<close>

record UserCredential =
  refreshToken :: jsstring

text \<open>
  The values that reading a cookie can give: \<open>undefined\<close> when there is no such cookie, the
  string of the cookie, or what the cookie library deserialised from it (\<open>null\<close>, a boolean,
  a number, a string, or an array or object, of which a condition reads only that it is
  one). \<open>ToBoolean\<close> is the conversion that \<open>if (v)\<close> applies.
\<close>

datatype jsnumber = Finite real | PosInfinity | NegInfinity | NaN

datatype jsvalue = Undefined | Null | Boolean bool | Number jsnumber | Str jsstring | Object

definition ToBoolean :: "jsvalue \<Rightarrow> bool" where
  "ToBoolean v =
     (case v of
        Undefined \<Rightarrow> False
      | Null \<Rightarrow> False
      | Boolean b \<Rightarrow> b
      | Number n \<Rightarrow>
          (case n of Finite x \<Rightarrow> x \<noteq> 0 | PosInfinity \<Rightarrow> True | NegInfinity \<Rightarrow> True
           | NaN \<Rightarrow> False)
      | Str s \<Rightarrow> \<not> falsy s
      | Object \<Rightarrow> True)"

text \<open>
  What the component does not decide: the clock and the calendar, whether the promise of
  \<open>addDoc\<close> resolves (\<open>None\<close>) or rejects, how \<open>signInWithPopup\<close> settles, and what the
  cookie library (universal-cookie, not part of the repository) makes of the string of a
  cookie when it reads it: a deserialised value, or nothing when it gives the string as it
  is.
\<close>

record Env =
  now :: Date
  monthStart :: "int \<Rightarrow> int"
  addDoc_outcome :: "thrown option"
  signInWithPopup_outcome :: "thrown + UserCredential"
  deserialize :: "jsstring \<Rightarrow> jsvalue option"

definition getDate :: "Env \<Rightarrow> Date \<Rightarrow> int" where
  "getDate env t = Day t - monthStart env (Day t) + 1"

definition setDate :: "Env \<Rightarrow> Date \<Rightarrow> int \<Rightarrow> Date" where
  "setDate env t date = (monthStart env (Day t) + date - 1) * msPerDay + TimeWithinDay t"

section \<open>Login: state and effects\<close>

text \<open>
  Every call that leaves the handler or sets state is recorded, in order of execution.
\<close>

datatype effect =
    PreventDefault
  | SetErrors Errors
  | SetLoader bool
  | SetFormValues FormValues
  | AddDoc jsstring FormValues
  | SignInWithPopup
  | CookiesSet jsstring jsstring Date
  | RouterPush jsstring
  | ConsoleError "jsstring list" thrown
  | Alert jsstring

record Cookie =
  cookieValue :: jsstring
  expires :: "Date option"

text \<open>
  The three \<open>useState\<close> cells of the component, the cookies of the browser, the collections
  of the remote store, and the effects so far.
\<close>

record World =
  formValues :: FormValues
  errors :: Errors
  loader :: bool
  cookieJar :: "jsstring \<rightharpoonup> Cookie"
  firestore :: "jsstring \<Rightarrow> FormValues list"
  trace :: "effect list"

definition emit :: "effect \<Rightarrow> World \<Rightarrow> World" where
  "emit e w = w\<lparr>trace := trace w @ [e]\<rparr>"

definition preventDefault :: "World \<Rightarrow> World" where
  "preventDefault w = emit PreventDefault w"

definition setErrors :: "Errors \<Rightarrow> World \<Rightarrow> World" where
  "setErrors e w = emit (SetErrors e) (w\<lparr>errors := e\<rparr>)"

definition setLoader :: "bool \<Rightarrow> World \<Rightarrow> World" where
  "setLoader b w = emit (SetLoader b) (w\<lparr>loader := b\<rparr>)"

definition setFormValues :: "FormValues \<Rightarrow> World \<Rightarrow> World" where
  "setFormValues v w = emit (SetFormValues v) (w\<lparr>formValues := v\<rparr>)"

text \<open>
  \<open>cookies.get(n)\<close>: \<open>undefined\<close> without the cookie. The empty string is no serialised
  value and is given back as it is; any other string goes through the library's
  deserialisation.
\<close>

definition cookies_get :: "Env \<Rightarrow> jsstring \<Rightarrow> World \<Rightarrow> jsvalue" where
  "cookies_get env n w =
     (case cookieJar w n of
        None \<Rightarrow> Undefined
      | Some c \<Rightarrow>
          if cookieValue c = [] then Str (cookieValue c)
          else case deserialize env (cookieValue c) of
                 None \<Rightarrow> Str (cookieValue c)
               | Some v \<Rightarrow> v)"

definition cookies_set :: "jsstring \<Rightarrow> jsstring \<Rightarrow> Date \<Rightarrow> World \<Rightarrow> World" where
  "cookies_set n v d w =
     emit (CookiesSet n v d)
       (w\<lparr>cookieJar := (cookieJar w)(n \<mapsto> \<lparr>cookieValue = v, expires = Some d\<rparr>)\<rparr>)"

definition router_push :: "jsstring \<Rightarrow> World \<Rightarrow> World" where
  "router_push route w = emit (RouterPush route) w"

definition console_error :: "jsstring list \<Rightarrow> thrown \<Rightarrow> World \<Rightarrow> World" where
  "console_error msgs e w = emit (ConsoleError msgs e) w"

definition alert :: "jsstring \<Rightarrow> World \<Rightarrow> World" where
  "alert msg w = emit (Alert msg) w"

text \<open>
  \<open>await addDoc(collection(db, c), doc)\<close>: the call is made; when its promise resolves the
  document is the last of the collection, when it rejects the rejection is thrown at the
  \<open>await\<close>.
\<close>

definition addDoc :: "Env \<Rightarrow> jsstring \<Rightarrow> FormValues \<Rightarrow> World \<Rightarrow> thrown option \<times> World" where
  "addDoc env c doc w =
     (let w = emit (AddDoc c doc) w
      in case addDoc_outcome env of
           Some e \<Rightarrow> (Some e, w)
         | None \<Rightarrow> (None, w\<lparr>firestore := (firestore w)(c := firestore w c @ [doc])\<rparr>))"

definition signInWithPopup :: "Env \<Rightarrow> World \<Rightarrow> (thrown + UserCredential) \<times> World" where
  "signInWithPopup env w = (signInWithPopup_outcome env, emit SignInWithPopup w)"

section \<open>Login: the handlers\<close>

text \<open>
  \<open>handleSubmit\<close>, from the event to the end of its \<open>finally\<close> block. The form values it
  validates and sends are those of the render it was created in.
\<close>

definition handleSubmit :: "Env \<Rightarrow> World \<Rightarrow> World" where
  "handleSubmit env w =
     (let values = formValues w;
          w = preventDefault w;
          formErrors = validateForm values
      in if length (Object_keys formErrors) > 0 then setErrors formErrors w
         else
           let w = setLoader True w;
               (error, w) = addDoc env (js ''users'') values w;
               w = (case error of
                      None \<Rightarrow>
                        let w = setFormValues
                                  \<lparr>name = js '''', mobileNumber = js '''', password = js ''''\<rparr> w;
                            expiryDate = now env;
                            expiryDate = setDate env expiryDate (getDate env expiryDate + 30);
                            w = cookies_set (js ''auth-token'') (js ''dummy-auth-token'') expiryDate w
                        in router_push (js ''/landing'') w
                    | Some error \<Rightarrow>
                        let w = console_error [js ''Error adding document: ''] error w
                        in alert (js ''Error adding document: '' @ toString error) w)
           in setLoader False w)"

definition signInGoogle :: "Env \<Rightarrow> World \<Rightarrow> World" where
  "signInGoogle env w =
     (case signInWithPopup env w of
        (Inr result, w) \<Rightarrow>
          let expiryDate = now env;
              expiryDate = setDate env expiryDate (getDate env expiryDate + 30);
              w = cookies_set (js ''auth-token'') (refreshToken result) expiryDate w
          in router_push (js ''/landing'') w
      | (Inl error, w) \<Rightarrow> console_error [] error w)"

text \<open>The body of the effect with the dependencies \<open>[cookies, router]\<close>.\<close>

definition sessionGuard :: "Env \<Rightarrow> World \<Rightarrow> World" where
  "sessionGuard env w =
     (let authToken = cookies_get env (js ''auth-token'') w
      in if ToBoolean authToken then router_push (js ''/landing'') w else w)"

text \<open>
  A render of the component, with the effects that follow it. \<open>cookies\<close> is
  \<open>new Cookies()\<close> in the body of the component, a new object in every render, and it is a
  dependency of the effect: so the effect runs after every render, the first one and each
  one that a state update causes.
\<close>

definition render :: "Env \<Rightarrow> World \<Rightarrow> World" where
  "render env w = sessionGuard env w"

text \<open>The first render: the initial values of the three state cells, then the effect.\<close>

definition initialWorld :: "(jsstring \<rightharpoonup> Cookie) \<Rightarrow> (jsstring \<Rightarrow> FormValues list) \<Rightarrow> World" where
  "initialWorld jar store =
     \<lparr>formValues = \<lparr>name = js '''', mobileNumber = js '''', password = js ''''\<rparr>,
      errors = noErrors, loader = False, cookieJar = jar, firestore = store, trace = []\<rparr>"

definition mount :: "Env \<Rightarrow> (jsstring \<rightharpoonup> Cookie) \<Rightarrow> (jsstring \<Rightarrow> FormValues list) \<Rightarrow> World" where
  "mount env jar store = render env (initialWorld jar store)"

section \<open>AddExpense: the participant selection\<close>

text \<open>
  The value of the change event of the multiple select is a string or an array of strings.
  \<open>String_split\<close> is \<open>split\<close> with a separator of one code unit: the pieces between the
  separators, one piece for the string without a separator (also for the empty string).
\<close>

datatype SelectValue = StringValue jsstring | ArrayValue "jsstring list"

record AddExpenseState =
  personName :: "jsstring list"

fun String_split :: "jschar \<Rightarrow> jsstring \<Rightarrow> jsstring list" where
  "String_split sep [] = [[]]"
| "String_split sep (c # cs) =
     (if c = sep then [] # String_split sep cs
      else case String_split sep cs of [] \<Rightarrow> [[c]] | p # ps \<Rightarrow> (c # p) # ps)"

definition comma :: jschar where
  "comma = 0x002C"

definition setPersonName :: "jsstring list \<Rightarrow> AddExpenseState \<Rightarrow> AddExpenseState" where
  "setPersonName v st = st\<lparr>personName := v\<rparr>"

definition handleChange :: "SelectValue \<Rightarrow> AddExpenseState \<Rightarrow> AddExpenseState" where
  "handleChange value st =
     setPersonName (case value of StringValue s \<Rightarrow> String_split comma s | ArrayValue a \<Rightarrow> a) st"

text \<open>\<open>Array.prototype.join\<close> with the separator, to read a split back.\<close>

fun Array_join :: "jschar \<Rightarrow> jsstring list \<Rightarrow> jsstring" where
  "Array_join sep [] = []"
| "Array_join sep [p] = p"
| "Array_join sep (p # q # ps) = p @ sep # Array_join sep (q # ps)"

section \<open>Sample inputs\<close>

definition validValues :: FormValues where
  "validValues = \<lparr>name = js ''Asha'', mobileNumber = js ''5551234567'', password = js ''secret''\<rparr>"

definition emptyValues :: FormValues where
  "emptyValues = \<lparr>name = js '''', mobileNumber = js '''', password = js ''''\<rparr>"

definition nameRequired :: Errors where
  "nameRequired = noErrors\<lparr>Errors.name := Some (js ''Name is required'')\<rparr>"

definition noDocuments :: "jsstring \<Rightarrow> FormValues list" where
  "noDocuments c = []"

definition worldWith :: "FormValues \<Rightarrow> Errors \<Rightarrow> World" where
  "worldWith v e =
     \<lparr>formValues = v, errors = e, loader = False, cookieJar = Map.empty,
      firestore = noDocuments, trace = []\<rparr>"

definition emptyTokenJar :: "jsstring \<rightharpoonup> Cookie" where
  "emptyTokenJar = [js ''auth-token'' \<mapsto> \<lparr>cookieValue = js '''', expires = None\<rparr>]"

text \<open>The sample environments: the library gives every cookie string back as it is.\<close>

definition asItIs :: "jsstring \<Rightarrow> jsvalue option" where
  "asItIs s = None"

definition envResolves :: Env where
  "envResolves =
     \<lparr>now = 1000, monthStart = (\<lambda>d. 0), addDoc_outcome = None,
      signInWithPopup_outcome = Inr \<lparr>refreshToken = js ''r3fr3sh''\<rparr>,
      deserialize = asItIs\<rparr>"

definition envRejects :: Env where
  "envRejects =
     \<lparr>now = 1000, monthStart = (\<lambda>d. 0), addDoc_outcome = Some (Thrown (js ''offline'')),
      signInWithPopup_outcome = Inl (Thrown (js ''popup closed'')),
      deserialize = asItIs\<rparr>"

section \<open>Strings and the pattern\<close>

lemma js_Nil: "js '''' = []"
  by (simp add: js_def)

lemma dropWhile_all: "(\<forall>x\<in>set (dropWhile P xs). P x) \<longleftrightarrow> (\<forall>x\<in>set xs. P x)"
  by (induction xs) auto

lemma trim_empty: "trim s = [] \<longleftrightarrow> list_all isTrimmed s"
  by (simp add: trim_def dropWhile_eq_Nil_conv dropWhile_all list_all_iff)

text \<open>Ten repetitions of \<open>\d\<close> from index \<open>i\<close> consume exactly the next ten code units.\<close>

lemma rx_term_digits:
  "i \<le> length s \<Longrightarrow> rx_term (Exactly ClassDigit n) s i =
     (if i + n \<le> length s \<and> (\<forall>k<n. isDigit (s ! (i + k))) then Some (i + n) else None)"
proof (induction n arbitrary: i)
  case 0
  then show ?case by simp
next
  case (Suc n)
  show ?case
  proof (cases "i < length s \<and> isDigit (s ! i)")
    case False
    then have "rx_term (Exactly ClassDigit (Suc n)) s i = None" by auto
    moreover have "\<not> (i + Suc n \<le> length s \<and> (\<forall>k<Suc n. isDigit (s ! (i + k))))"
    proof
      assume a: "i + Suc n \<le> length s \<and> (\<forall>k<Suc n. isDigit (s ! (i + k)))"
      then have "i < length s" by simp
      moreover from a have "isDigit (s ! (i + 0))" by blast
      ultimately show False using False by simp
    qed
    ultimately show ?thesis by simp
  next
    case True
    have all: "(\<forall>k<Suc n. isDigit (s ! (i + k))) \<longleftrightarrow> (\<forall>k<n. isDigit (s ! (Suc i + k)))"
      using True by (auto simp: less_Suc_eq_0_disj)
    from True have "rx_term (Exactly ClassDigit (Suc n)) s i = rx_term (Exactly ClassDigit n) s (Suc i)"
      by simp
    moreover from True have "Suc i \<le> length s" by simp
    ultimately show ?thesis using all by (simp add: Suc.IH)
  qed
qed

lemma rx_seq_tenDigits:
  "i \<le> length s \<Longrightarrow>
   rx_seq tenDigits s i \<noteq> None \<longleftrightarrow> i = 0 \<and> length s = 10 \<and> (\<forall>k<10. isDigit (s ! k))"
  by (auto simp: tenDigits_def rx_term_digits split: option.splits if_splits)

lemma rx_test_tenDigits: "rx_test tenDigits s \<longleftrightarrow> length s = 10 \<and> list_all isDigit s"
proof -
  have "rx_test tenDigits s \<longleftrightarrow> (\<exists>i\<le>length s. rx_seq tenDigits s i \<noteq> None)"
  proof -
    have "set [0 ..< Suc (length s)] = {i. i \<le> length s}" by auto
    then show ?thesis unfolding rx_test_def list_ex_iff by blast
  qed
  also have "\<dots> \<longleftrightarrow> length s = 10 \<and> (\<forall>k<10. isDigit (s ! k))"
    using rx_seq_tenDigits by blast
  also have "\<dots> \<longleftrightarrow> length s = 10 \<and> list_all isDigit s"
    by (auto simp: list_all_length)
  finally show ?thesis .
qed

section \<open>The validator\<close>

lemma validateForm_fields:
  "validateForm fv =
     \<lparr>Errors.name = (if trim (name fv) = [] then Some (js ''Name is required'') else None),
      Errors.mobileNumber =
        (if trim (mobileNumber fv) = [] then Some (js ''Mobile number is required'')
         else if \<not> rx_test tenDigits (mobileNumber fv) then Some (js ''Mobile number must be 10 digits'')
         else None),
      Errors.password =
        (if trim (password fv) = [] then Some (js ''Password is required'')
         else if length (password fv) < 6 then Some (js ''Password must be at least 6 characters'')
         else None)\<rparr>"
  by (simp add: validateForm_def noErrors_def falsy_def)

lemma Object_keys_Nil: "Object_keys e = [] \<longleftrightarrow> e = noErrors"
  by (cases e) (auto simp: Object_keys_def noErrors_def)

lemma validateForm_validValues: "validateForm validValues = noErrors"
  by code_simp

lemma validateForm_emptyValues:
  "validateForm emptyValues =
     \<lparr>Errors.name = Some (js ''Name is required''),
      Errors.mobileNumber = Some (js ''Mobile number is required''),
      Errors.password = Some (js ''Password is required'')\<rparr>"
  by (simp add: validateForm_fields emptyValues_def js_Nil trim_def)

lemmas trim_eval = trim_def js_def isTrimmed_def isWhiteSpace_def isLineTerminator_def

text \<open>C4. The mobile number rule of the validator: "required" when the trimmed value is
  empty; otherwise "must be 10 digits" unless the untrimmed value is exactly ten decimal
  digits; otherwise no entry. So \<open>5551234567\<close> passes, \<open>123\<close> and \<open>55512345a\<close> get the digit
  message and the empty string gets the required message, whatever the other two fields are.\<close>

theorem validateForm_mobileNumber:
  "Errors.mobileNumber (validateForm fv) =
     (if trim (mobileNumber fv) = [] then Some (js ''Mobile number is required'')
      else if length (mobileNumber fv) = 10 \<and> list_all isDigit (mobileNumber fv) then None
      else Some (js ''Mobile number must be 10 digits''))
   \<and> Errors.mobileNumber (validateForm (fv\<lparr>mobileNumber := js ''5551234567''\<rparr>)) = None
   \<and> Errors.mobileNumber (validateForm (fv\<lparr>mobileNumber := js ''123''\<rparr>))
       = Some (js ''Mobile number must be 10 digits'')
   \<and> Errors.mobileNumber (validateForm (fv\<lparr>mobileNumber := js ''55512345a''\<rparr>))
       = Some (js ''Mobile number must be 10 digits'')
   \<and> Errors.mobileNumber (validateForm (fv\<lparr>mobileNumber := js ''''\<rparr>))
       = Some (js ''Mobile number is required'')"
proof -
  have rule: "Errors.mobileNumber (validateForm v) =
     (if trim (mobileNumber v) = [] then Some (js ''Mobile number is required'')
      else if length (mobileNumber v) = 10 \<and> list_all isDigit (mobileNumber v) then None
      else Some (js ''Mobile number must be 10 digits''))" for v
    by (simp add: validateForm_fields rx_test_tenDigits)
  have a: "trim (js ''5551234567'') \<noteq> []" "list_all isDigit (js ''5551234567'')"
    by (simp_all add: trim_eval isDigit_def)
  have b: "trim (js ''123'') \<noteq> []" "trim (js ''55512345a'') \<noteq> []" "trim (js '''') = []"
    by (simp_all add: trim_eval)
  have c: "length (js ''5551234567'') = 10" "length (js ''123'') = 3" "length (js ''55512345a'') = 9"
    by (simp_all add: js_def)
  show ?thesis
    using a b c by (simp add: rule)
qed

text \<open>C5. The password rule of the validator: "required" when the trimmed value is empty;
  otherwise "must be at least 6 characters" when the untrimmed value has fewer than 6 code
  units; otherwise no entry. A password of length 5 gets the length message, one of length 6
  passes, the empty one gets the required message.\<close>

theorem validateForm_password:
  "Errors.password (validateForm fv) =
     (if trim (password fv) = [] then Some (js ''Password is required'')
      else if length (password fv) < 6 then Some (js ''Password must be at least 6 characters'')
      else None)
   \<and> Errors.password (validateForm (fv\<lparr>password := js ''abcde''\<rparr>))
       = Some (js ''Password must be at least 6 characters'')
   \<and> Errors.password (validateForm (fv\<lparr>password := js ''abcdef''\<rparr>)) = None
   \<and> Errors.password (validateForm (fv\<lparr>password := js ''''\<rparr>)) = Some (js ''Password is required'')"
proof -
  have rule: "Errors.password (validateForm v) =
     (if trim (password v) = [] then Some (js ''Password is required'')
      else if length (password v) < 6 then Some (js ''Password must be at least 6 characters'')
      else None)" for v
    by (simp add: validateForm_fields)
  have a: "trim (js ''abcde'') \<noteq> []" "trim (js ''abcdef'') \<noteq> []" "trim (js '''') = []"
    by (simp_all add: trim_eval)
  have b: "length (js ''abcde'') = 5" "length (js ''abcdef'') = 6"
    by (simp_all add: js_def)
  show ?thesis
    using a b by (simp add: rule)
qed

text \<open>C6. The validator is a function of the form values alone. Its result has the name key
  exactly when the name consists of trimmed code units only (the empty name included); each
  of the three entries is computed from its own field, whatever the other two rules gave; a
  key is absent exactly when its rule passed, and the result has no key exactly when all
  three rules passed.\<close>

theorem validateForm_keys:
  "(Errors.name (validateForm fv) \<noteq> None) = list_all isTrimmed (name fv)
   \<and> (Errors.mobileNumber (validateForm fv) = None)
       = (trim (mobileNumber fv) \<noteq> [] \<and> length (mobileNumber fv) = 10
          \<and> list_all isDigit (mobileNumber fv))
   \<and> (Errors.password (validateForm fv) = None)
       = (trim (password fv) \<noteq> [] \<and> 6 \<le> length (password fv))
   \<and> Errors.name (validateForm (fv\<lparr>mobileNumber := m, password := p\<rparr>))
       = Errors.name (validateForm fv)
   \<and> Errors.mobileNumber (validateForm (fv\<lparr>name := n, password := p\<rparr>))
       = Errors.mobileNumber (validateForm fv)
   \<and> Errors.password (validateForm (fv\<lparr>name := n, mobileNumber := m\<rparr>))
       = Errors.password (validateForm fv)
   \<and> Object_keys (validateForm fv) =
        (if Errors.name (validateForm fv) = None then [] else [js ''name'']) @
        (if Errors.mobileNumber (validateForm fv) = None then [] else [js ''mobileNumber'']) @
        (if Errors.password (validateForm fv) = None then [] else [js ''password''])
   \<and> (validateForm fv = noErrors)
       = (\<not> list_all isTrimmed (name fv)
          \<and> trim (mobileNumber fv) \<noteq> [] \<and> length (mobileNumber fv) = 10
          \<and> list_all isDigit (mobileNumber fv)
          \<and> trim (password fv) \<noteq> [] \<and> 6 \<le> length (password fv))"
proof -
  have n: "(Errors.name (validateForm fv) \<noteq> None) = list_all isTrimmed (name fv)"
    by (simp add: validateForm_fields trim_empty)
  have m: "(Errors.mobileNumber (validateForm fv) = None)
       = (trim (mobileNumber fv) \<noteq> [] \<and> length (mobileNumber fv) = 10
          \<and> list_all isDigit (mobileNumber fv))"
    by (simp add: validateForm_fields rx_test_tenDigits)
  have p: "(Errors.password (validateForm fv) = None)
       = (trim (password fv) \<noteq> [] \<and> 6 \<le> length (password fv))"
    by (auto simp: validateForm_fields)
  have i: "Errors.name (validateForm (fv\<lparr>mobileNumber := m, password := p\<rparr>))
             = Errors.name (validateForm fv)"
    "Errors.mobileNumber (validateForm (fv\<lparr>name := n, password := p\<rparr>))
             = Errors.mobileNumber (validateForm fv)"
    "Errors.password (validateForm (fv\<lparr>name := n, mobileNumber := m\<rparr>))
             = Errors.password (validateForm fv)" for n m p
    by (simp_all add: validateForm_fields)
  have k: "Object_keys (validateForm fv) =
        (if Errors.name (validateForm fv) = None then [] else [js ''name'']) @
        (if Errors.mobileNumber (validateForm fv) = None then [] else [js ''mobileNumber'']) @
        (if Errors.password (validateForm fv) = None then [] else [js ''password''])"
    by (simp add: Object_keys_def)
  have "(validateForm fv = noErrors)
          = (Errors.name (validateForm fv) = None \<and> Errors.mobileNumber (validateForm fv) = None
             \<and> Errors.password (validateForm fv) = None)"
    by (cases "validateForm fv") (simp add: noErrors_def)
  then have e: "(validateForm fv = noErrors)
       = (\<not> list_all isTrimmed (name fv)
          \<and> trim (mobileNumber fv) \<noteq> [] \<and> length (mobileNumber fv) = 10
          \<and> list_all isDigit (mobileNumber fv)
          \<and> trim (password fv) \<noteq> [] \<and> 6 \<le> length (password fv))"
    using n m p by blast
  from n m p i k e show ?thesis by blast
qed

section \<open>The expiry date\<close>

text \<open>Whatever the calendar, setting the day of the month to itself plus \<open>n\<close> moves the date
  by \<open>n\<close> days and keeps the time of day.\<close>

lemma setDate_getDate: "setDate env t (getDate env t + n) = t + n * msPerDay"
proof -
  have "setDate env t (getDate env t + n) = (Day t + n) * msPerDay + TimeWithinDay t"
    by (simp add: setDate_def getDate_def)
  also have "\<dots> = (t div msPerDay * msPerDay + t mod msPerDay) + n * msPerDay"
    by (simp add: Day_def TimeWithinDay_def algebra_simps)
  also have "\<dots> = t + n * msPerDay"
    by simp
  finally show ?thesis .
qed

section \<open>The three ways through handleSubmit\<close>

lemma handleSubmit_stop:
  "validateForm (formValues w) \<noteq> noErrors \<Longrightarrow>
   handleSubmit env w =
     w\<lparr>errors := validateForm (formValues w),
       trace := trace w @ [PreventDefault, SetErrors (validateForm (formValues w))]\<rparr>"
  by (simp add: handleSubmit_def Let_def preventDefault_def setErrors_def emit_def Object_keys_Nil)

lemma handleSubmit_resolved:
  "validateForm (formValues w) = noErrors \<Longrightarrow> addDoc_outcome env = None \<Longrightarrow>
   handleSubmit env w =
     w\<lparr>formValues := \<lparr>name = [], mobileNumber = [], password = []\<rparr>,
       loader := False,
       cookieJar := (cookieJar w)(js ''auth-token'' \<mapsto>
          \<lparr>cookieValue = js ''dummy-auth-token'', expires = Some (now env + 30 * msPerDay)\<rparr>),
       firestore := (firestore w)(js ''users'' := firestore w (js ''users'') @ [formValues w]),
       trace := trace w @
         [PreventDefault, SetLoader True, AddDoc (js ''users'') (formValues w),
          SetFormValues \<lparr>name = [], mobileNumber = [], password = []\<rparr>,
          CookiesSet (js ''auth-token'') (js ''dummy-auth-token'') (now env + 30 * msPerDay),
          RouterPush (js ''/landing''), SetLoader False]\<rparr>"
  using Object_keys_Nil [of noErrors]
  by (simp add: handleSubmit_def Let_def preventDefault_def setLoader_def addDoc_def
      setFormValues_def cookies_set_def router_push_def emit_def setDate_getDate js_Nil)

lemma handleSubmit_rejected:
  "validateForm (formValues w) = noErrors \<Longrightarrow> addDoc_outcome env = Some e \<Longrightarrow>
   handleSubmit env w =
     w\<lparr>loader := False,
       trace := trace w @
         [PreventDefault, SetLoader True, AddDoc (js ''users'') (formValues w),
          ConsoleError [js ''Error adding document: ''] e,
          Alert (js ''Error adding document: '' @ toString e), SetLoader False]\<rparr>"
  using Object_keys_Nil [of noErrors]
  by (simp add: handleSubmit_def Let_def preventDefault_def setLoader_def addDoc_def
      console_error_def alert_def emit_def)

lemma sample_worlds:
  "formValues (worldWith v e) = v" "errors (worldWith v e) = e" "loader (worldWith v e) = False"
  "trace (worldWith v e) = []" "cookieJar (worldWith v e) = Map.empty"
  "firestore (worldWith v e) = noDocuments"
  by (simp_all add: worldWith_def)

lemma sample_envs:
  "addDoc_outcome envResolves = None" "now envResolves = 1000"
  "addDoc_outcome envRejects = Some (Thrown (js ''offline''))"
  by (simp_all add: envResolves_def envRejects_def)

lemma nameRequired_noErrors: "nameRequired \<noteq> noErrors"
  by (simp add: nameRequired_def noErrors_def)

lemma sample_reader: "deserialize envResolves s = None" "deserialize envRejects s = None"
  by (simp_all add: envResolves_def envRejects_def asItIs_def)

text \<open>The render after a submit that succeeded: the effect finds the cookie that the handler
  has just written.\<close>

lemma render_after_resolved:
  assumes "validateForm (formValues w) = noErrors" and "addDoc_outcome env = None"
    and "deserialize env (js ''dummy-auth-token'') = None"
  shows "render env (handleSubmit env w) =
           (handleSubmit env w)\<lparr>trace := trace (handleSubmit env w) @ [RouterPush (js ''/landing'')]\<rparr>"
proof -
  have token: "cookies_get env (js ''auth-token'') (handleSubmit env w) = Str (js ''dummy-auth-token'')"
    using assms(3) by (simp add: handleSubmit_resolved [OF assms(1,2)] cookies_get_def js_def)
  have "ToBoolean (Str (js ''dummy-auth-token''))"
    by (simp add: ToBoolean_def falsy_def js_def)
  with token show ?thesis
    by (simp add: render_def sessionGuard_def router_push_def emit_def)
qed

text \<open>C1, as the code has it. When the validator finds nothing and the document is created,
  handleSubmit has, in this order: set the loading flag, added the submitted form values as
  one document to the collection "users", reset the three form values to the empty string,
  set the cookie "auth-token" to the fixed placeholder with an expiry 30 days after the
  clock, called the navigation to the landing route once, and cleared the loading flag.
  The component does not stop at that one navigation: the render that these state updates
  cause runs the effect again, which reads the placeholder just written (a string that the
  cookie library gives back as it is) and navigates to the landing route once more.\<close>

theorem handleSubmit_success:
  assumes "validateForm (formValues w) = noErrors" and "addDoc_outcome env = None"
  shows "trace (handleSubmit env w) = trace w @
           [PreventDefault, SetLoader True, AddDoc (js ''users'') (formValues w),
            SetFormValues \<lparr>name = js '''', mobileNumber = js '''', password = js ''''\<rparr>,
            CookiesSet (js ''auth-token'') (js ''dummy-auth-token'') (now env + 30 * msPerDay),
            RouterPush (js ''/landing''), SetLoader False]
         \<and> firestore (handleSubmit env w) (js ''users'') = firestore w (js ''users'') @ [formValues w]
         \<and> formValues (handleSubmit env w)
             = \<lparr>name = js '''', mobileNumber = js '''', password = js ''''\<rparr>
         \<and> cookieJar (handleSubmit env w) (js ''auth-token'')
             = Some \<lparr>cookieValue = js ''dummy-auth-token'',
                     expires = Some (now env + 30 * msPerDay)\<rparr>
         \<and> loader (handleSubmit env w) = False
         \<and> (deserialize env (js ''dummy-auth-token'') = None \<longrightarrow>
              trace (render env (handleSubmit env w))
                = trace (handleSubmit env w) @ [RouterPush (js ''/landing'')])"
proof -
  have handler: "trace (handleSubmit env w) = trace w @
           [PreventDefault, SetLoader True, AddDoc (js ''users'') (formValues w),
            SetFormValues \<lparr>name = js '''', mobileNumber = js '''', password = js ''''\<rparr>,
            CookiesSet (js ''auth-token'') (js ''dummy-auth-token'') (now env + 30 * msPerDay),
            RouterPush (js ''/landing''), SetLoader False]
         \<and> firestore (handleSubmit env w) (js ''users'') = firestore w (js ''users'') @ [formValues w]
         \<and> formValues (handleSubmit env w)
             = \<lparr>name = js '''', mobileNumber = js '''', password = js ''''\<rparr>
         \<and> cookieJar (handleSubmit env w) (js ''auth-token'')
             = Some \<lparr>cookieValue = js ''dummy-auth-token'',
                     expires = Some (now env + 30 * msPerDay)\<rparr>
         \<and> loader (handleSubmit env w) = False"
    by (simp add: handleSubmit_resolved [OF assms] js_Nil)
  have again: "deserialize env (js ''dummy-auth-token'') = None \<longrightarrow>
              trace (render env (handleSubmit env w))
                = trace (handleSubmit env w) @ [RouterPush (js ''/landing'')]"
    by (simp add: render_after_resolved [OF assms])
  from handler again show ?thesis by blast
qed

theorem handleSubmit_success_witness:
  "validateForm (formValues (worldWith validValues noErrors)) = noErrors
   \<and> addDoc_outcome envResolves = None
   \<and> deserialize envResolves (js ''dummy-auth-token'') = None
   \<and> trace (handleSubmit envResolves (worldWith validValues noErrors)) =
       [PreventDefault, SetLoader True, AddDoc (js ''users'') validValues,
        SetFormValues emptyValues,
        CookiesSet (js ''auth-token'') (js ''dummy-auth-token'') 2592001000,
        RouterPush (js ''/landing''), SetLoader False]
   \<and> firestore (handleSubmit envResolves (worldWith validValues noErrors)) (js ''users'')
       = [validValues]
   \<and> formValues (handleSubmit envResolves (worldWith validValues noErrors)) = emptyValues
   \<and> loader (handleSubmit envResolves (worldWith validValues noErrors)) = False
   \<and> trace (render envResolves (handleSubmit envResolves (worldWith validValues noErrors)))
       = trace (handleSubmit envResolves (worldWith validValues noErrors))
         @ [RouterPush (js ''/landing'')]"
proof -
  have v: "validateForm (formValues (worldWith validValues noErrors)) = noErrors"
    by (simp add: sample_worlds validateForm_validValues)
  have r: "addDoc_outcome envResolves = None"
    by (simp add: sample_envs)
  have d: "deserialize envResolves (js ''dummy-auth-token'') = None"
    by (simp add: sample_reader)
  show ?thesis
    using handleSubmit_success [OF v r] v r d
    by (simp add: sample_worlds sample_envs emptyValues_def msPerDay_def noDocuments_def)
qed

text \<open>Where C1 fails: valid form values, the document is created, and the component has
  navigated to the landing route twice once it has rendered again, not exactly once.\<close>

theorem handleSubmit_success_counterexample:
  "validateForm (formValues (worldWith validValues noErrors)) = noErrors
   \<and> addDoc_outcome envResolves = None
   \<and> trace (render envResolves (handleSubmit envResolves (worldWith validValues noErrors))) =
       [PreventDefault, SetLoader True, AddDoc (js ''users'') validValues,
        SetFormValues emptyValues,
        CookiesSet (js ''auth-token'') (js ''dummy-auth-token'') 2592001000,
        RouterPush (js ''/landing''), SetLoader False, RouterPush (js ''/landing'')]
   \<and> count_list
        (trace (render envResolves (handleSubmit envResolves (worldWith validValues noErrors))))
        (RouterPush (js ''/landing'')) = 2"
proof -
  have v: "validateForm (formValues (worldWith validValues noErrors)) = noErrors"
    by (simp add: sample_worlds validateForm_validValues)
  have r: "addDoc_outcome envResolves = None"
    by (simp add: sample_envs)
  have t: "trace (render envResolves (handleSubmit envResolves (worldWith validValues noErrors))) =
       [PreventDefault, SetLoader True, AddDoc (js ''users'') validValues,
        SetFormValues emptyValues,
        CookiesSet (js ''auth-token'') (js ''dummy-auth-token'') 2592001000,
        RouterPush (js ''/landing''), SetLoader False, RouterPush (js ''/landing'')]"
  proof -
    have "trace (render envResolves (handleSubmit envResolves (worldWith validValues noErrors)))
            = trace (handleSubmit envResolves (worldWith validValues noErrors))
              @ [RouterPush (js ''/landing'')]"
      by (simp add: render_after_resolved [OF v r sample_reader(1)])
    moreover
    have "trace (handleSubmit envResolves (worldWith validValues noErrors)) =
       [PreventDefault, SetLoader True, AddDoc (js ''users'') validValues,
        SetFormValues emptyValues,
        CookiesSet (js ''auth-token'') (js ''dummy-auth-token'') 2592001000,
        RouterPush (js ''/landing''), SetLoader False]"
      by (simp add: handleSubmit_resolved [OF v r] sample_worlds sample_envs emptyValues_def
          msPerDay_def js_Nil)
    ultimately show ?thesis by simp
  qed
  have "count_list
       [PreventDefault, SetLoader True, AddDoc (js ''users'') validValues,
        SetFormValues emptyValues,
        CookiesSet (js ''auth-token'') (js ''dummy-auth-token'') 2592001000,
        RouterPush (js ''/landing''), SetLoader False, RouterPush (js ''/landing'')]
       (RouterPush (js ''/landing'')) = 2"
    by simp
  with t v r show ?thesis by simp
qed

text \<open>C2. When the validator finds nothing and the creation of the document throws,
  handleSubmit logs the thrown value, shows it in one alert and clears the loading flag.
  The form values and the cookies are as before, and there is no navigation.\<close>

theorem handleSubmit_failure:
  assumes "validateForm (formValues w) = noErrors" and "addDoc_outcome env = Some e"
  shows "trace (handleSubmit env w) = trace w @
           [PreventDefault, SetLoader True, AddDoc (js ''users'') (formValues w),
            ConsoleError [js ''Error adding document: ''] e,
            Alert (js ''Error adding document: '' @ toString e), SetLoader False]
         \<and> formValues (handleSubmit env w) = formValues w
         \<and> cookieJar (handleSubmit env w) = cookieJar w
         \<and> loader (handleSubmit env w) = False"
  by (simp add: handleSubmit_rejected [OF assms])

theorem handleSubmit_failure_witness:
  "validateForm (formValues (worldWith validValues noErrors)) = noErrors
   \<and> addDoc_outcome envRejects = Some (Thrown (js ''offline''))
   \<and> trace (handleSubmit envRejects (worldWith validValues noErrors)) =
       [PreventDefault, SetLoader True, AddDoc (js ''users'') validValues,
        ConsoleError [js ''Error adding document: ''] (Thrown (js ''offline'')),
        Alert (js ''Error adding document: '' @ js ''offline''), SetLoader False]
   \<and> formValues (handleSubmit envRejects (worldWith validValues noErrors)) = validValues
   \<and> cookieJar (handleSubmit envRejects (worldWith validValues noErrors)) = Map.empty
   \<and> loader (handleSubmit envRejects (worldWith validValues noErrors)) = False"
proof -
  have v: "validateForm (formValues (worldWith validValues noErrors)) = noErrors"
    by (simp add: sample_worlds validateForm_validValues)
  have r: "addDoc_outcome envRejects = Some (Thrown (js ''offline''))"
    by (simp add: sample_envs)
  show ?thesis
    using handleSubmit_failure [OF v r] v r
    by (simp add: sample_worlds)
qed

text \<open>C3. When the validator finds an error, handleSubmit stores the validator's result
  and stops: nothing but the default action and the errors is touched, there is no remote
  call, and the loading flag is never set, so it is false throughout when it was false
  before. With the three fields empty the stored errors are the three "required"
  messages.\<close>

theorem handleSubmit_invalid:
  "(validateForm (formValues w) \<noteq> noErrors \<longrightarrow>
      errors (handleSubmit env w) = validateForm (formValues w)
      \<and> trace (handleSubmit env w)
          = trace w @ [PreventDefault, SetErrors (validateForm (formValues w))]
      \<and> firestore (handleSubmit env w) = firestore w
      \<and> loader (handleSubmit env w) = loader w)
   \<and> errors (handleSubmit env (w\<lparr>formValues :=
         \<lparr>name = js '''', mobileNumber = js '''', password = js ''''\<rparr>\<rparr>))
       = \<lparr>Errors.name = Some (js ''Name is required''),
          Errors.mobileNumber = Some (js ''Mobile number is required''),
          Errors.password = Some (js ''Password is required'')\<rparr>"
proof -
  let ?w = "w\<lparr>formValues := \<lparr>name = js '''', mobileNumber = js '''', password = js ''''\<rparr>\<rparr>"
  have e: "validateForm (formValues ?w) =
             \<lparr>Errors.name = Some (js ''Name is required''),
              Errors.mobileNumber = Some (js ''Mobile number is required''),
              Errors.password = Some (js ''Password is required'')\<rparr>"
    using validateForm_emptyValues by (simp add: emptyValues_def)
  then have "validateForm (formValues ?w) \<noteq> noErrors"
    by (simp add: noErrors_def)
  then have "errors (handleSubmit env ?w) = validateForm (formValues ?w)"
    by (simp add: handleSubmit_stop)
  with e show ?thesis
    by (simp add: handleSubmit_stop)
qed

theorem handleSubmit_invalid_witness:
  "validateForm (formValues (worldWith emptyValues noErrors)) \<noteq> noErrors
   \<and> errors (handleSubmit envResolves (worldWith emptyValues noErrors))
       = \<lparr>Errors.name = Some (js ''Name is required''),
          Errors.mobileNumber = Some (js ''Mobile number is required''),
          Errors.password = Some (js ''Password is required'')\<rparr>
   \<and> trace (handleSubmit envResolves (worldWith emptyValues noErrors))
       = [PreventDefault, SetErrors (validateForm emptyValues)]
   \<and> firestore (handleSubmit envResolves (worldWith emptyValues noErrors)) = noDocuments
   \<and> loader (handleSubmit envResolves (worldWith emptyValues noErrors)) = False"
proof -
  have v: "validateForm (formValues (worldWith emptyValues noErrors)) \<noteq> noErrors"
    by (simp add: sample_worlds validateForm_emptyValues noErrors_def)
  show ?thesis
    using handleSubmit_invalid [of "worldWith emptyValues noErrors" envResolves] v
    by (simp add: sample_worlds validateForm_emptyValues)
qed

text \<open>C7, as the code has it. handleSubmit writes the errors only when the validator found
  some: then the stored errors are the validator's result for the submitted form values,
  whatever was stored before. When the validator finds nothing, the stored errors stay as
  they were, whether the document is created or not.\<close>

theorem handleSubmit_errors:
  "errors (handleSubmit env w) =
     (if validateForm (formValues w) = noErrors then errors w else validateForm (formValues w))"
proof (cases "validateForm (formValues w) = noErrors")
  case False
  then show ?thesis by (simp add: handleSubmit_stop)
next
  case True
  show ?thesis
  proof (cases "addDoc_outcome env")
    case None
    with True show ?thesis by (simp add: handleSubmit_resolved)
  next
    case (Some e)
    with True show ?thesis by (simp add: handleSubmit_rejected)
  qed
qed

text \<open>Where C7 fails: the name error of an earlier attempt is stored, the form values are
  now valid, and the creation of the document is rejected. The stored errors are still the
  old ones, not the validator's empty result.\<close>

theorem handleSubmit_errors_counterexample:
  "errors (handleSubmit envRejects (worldWith validValues nameRequired))
     \<noteq> validateForm (formValues (worldWith validValues nameRequired))
   \<and> errors (handleSubmit envResolves (worldWith validValues nameRequired))
     \<noteq> validateForm (formValues (worldWith validValues nameRequired))"
proof -
  have v: "validateForm (formValues (worldWith validValues nameRequired)) = noErrors"
    by (simp add: sample_worlds validateForm_validValues)
  have "errors (handleSubmit envRejects (worldWith validValues nameRequired)) = nameRequired"
    using handleSubmit_rejected [OF v sample_envs(3)] by (simp add: sample_worlds)
  moreover
  have "errors (handleSubmit envResolves (worldWith validValues nameRequired)) = nameRequired"
    using handleSubmit_resolved [OF v sample_envs(1)] by (simp add: sample_worlds)
  ultimately show ?thesis
    using v nameRequired_noErrors by simp
qed

section \<open>Sign-in with the provider, and the guard at mount\<close>

text \<open>C8. signInGoogle does not look at the form: it neither reads the form values nor
  writes the errors, and changing the form values changes nothing else of what it does.
  When the provider's sign-in succeeds it sets the cookie "auth-token" to the refresh token
  of the result, with an expiry 30 days after the clock, and then navigates to the landing
  route. When the sign-in throws, the thrown value is logged and that is all: no alert, no
  cookie, no navigation.\<close>

theorem signInGoogle_paths:
  "trace (signInGoogle env w) = trace w @
     (case signInWithPopup_outcome env of
        Inr result \<Rightarrow>
          [SignInWithPopup,
           CookiesSet (js ''auth-token'') (refreshToken result) (now env + 30 * msPerDay),
           RouterPush (js ''/landing'')]
      | Inl error \<Rightarrow> [SignInWithPopup, ConsoleError [] error])
   \<and> cookieJar (signInGoogle env w) =
       (case signInWithPopup_outcome env of
          Inr result \<Rightarrow>
            (cookieJar w)(js ''auth-token'' \<mapsto>
               \<lparr>cookieValue = refreshToken result, expires = Some (now env + 30 * msPerDay)\<rparr>)
        | Inl error \<Rightarrow> cookieJar w)
   \<and> errors (signInGoogle env w) = errors w
   \<and> formValues (signInGoogle env w) = formValues w
   \<and> loader (signInGoogle env w) = loader w
   \<and> signInGoogle env (w\<lparr>formValues := fv\<rparr>) = (signInGoogle env w)\<lparr>formValues := fv\<rparr>"
  by (cases "signInWithPopup_outcome env")
     (simp_all add: signInGoogle_def signInWithPopup_def Let_def cookies_set_def
        router_push_def console_error_def emit_def setDate_getDate)

text \<open>C9, as the code has it. At mount the component navigates to the landing route when
  what \<open>cookies.get\<close> gives for the cookie "auth-token" is truthy: the cookie is there, its
  value is not the empty string, and the cookie library gives the value back as it is or
  deserialises it to something truthy. Nothing else about the cookie is checked. Without
  the cookie, with the empty string as its value, or with a value that the library
  deserialises to \<open>null\<close>, \<open>false\<close>, zero or the empty string, there is no navigation. The
  form is in its initial state then.\<close>

theorem mount_guard:
  "trace (mount env jar store) =
     (case jar (js ''auth-token'') of
        None \<Rightarrow> []
      | Some c \<Rightarrow>
          if cookieValue c = [] then []
          else case deserialize env (cookieValue c) of
                 None \<Rightarrow> [RouterPush (js ''/landing'')]
               | Some v \<Rightarrow> if ToBoolean v then [RouterPush (js ''/landing'')] else [])
   \<and> ToBoolean Null = False \<and> ToBoolean (Boolean False) = False
   \<and> ToBoolean (Number (Finite 0)) = False \<and> ToBoolean (Str []) = False
   \<and> formValues (mount env jar store)
       = \<lparr>name = js '''', mobileNumber = js '''', password = js ''''\<rparr>
   \<and> errors (mount env jar store) = noErrors
   \<and> loader (mount env jar store) = False
   \<and> cookieJar (mount env jar store) = jar"
proof -
  have t: "trace (mount env jar store) =
     (case jar (js ''auth-token'') of
        None \<Rightarrow> []
      | Some c \<Rightarrow>
          if cookieValue c = [] then []
          else case deserialize env (cookieValue c) of
                 None \<Rightarrow> [RouterPush (js ''/landing'')]
               | Some v \<Rightarrow> if ToBoolean v then [RouterPush (js ''/landing'')] else [])"
    by (simp add: mount_def render_def sessionGuard_def initialWorld_def cookies_get_def
        ToBoolean_def falsy_def router_push_def emit_def Let_def split: option.splits)
  have b: "ToBoolean Null = False" "ToBoolean (Boolean False) = False"
    "ToBoolean (Number (Finite 0)) = False" "ToBoolean (Str []) = False"
    by (simp_all add: ToBoolean_def falsy_def)
  have s: "formValues (mount env jar store)
       = \<lparr>name = js '''', mobileNumber = js '''', password = js ''''\<rparr>"
    "errors (mount env jar store) = noErrors" "loader (mount env jar store) = False"
    "cookieJar (mount env jar store) = jar"
    by (simp_all add: mount_def render_def sessionGuard_def initialWorld_def router_push_def
        emit_def Let_def)
  from t b s show ?thesis by blast
qed

text \<open>Where C9 fails: the cookie "auth-token" is there, with the empty string as its value,
  and the component does not navigate.\<close>

theorem mount_guard_counterexample:
  "emptyTokenJar (js ''auth-token'') \<noteq> None
   \<and> trace (mount envResolves emptyTokenJar noDocuments) = []"
  by (simp add: mount_def render_def sessionGuard_def initialWorld_def cookies_get_def
      ToBoolean_def falsy_def emptyTokenJar_def js_Nil)

section \<open>The participant selection\<close>

lemma String_split_not_Nil: "String_split sep s \<noteq> []"
  by (induction s) (auto split: list.splits)

lemma Array_join_Cons: "Array_join sep ((c # p) # ps) = c # Array_join sep (p # ps)"
  by (cases ps) simp_all

lemma Array_join_split: "Array_join sep (String_split sep s) = s"
proof (induction s)
  case Nil
  show ?case by simp
next
  case (Cons c cs)
  obtain p ps where split: "String_split sep cs = p # ps"
    using String_split_not_Nil [of sep cs] by (cases "String_split sep cs") auto
  show ?case
  proof (cases "c = sep")
    case True
    with split Cons show ?thesis by simp
  next
    case False
    with split Cons show ?thesis by (simp add: Array_join_Cons)
  qed
qed

lemma String_split_pieces: "list_all (\<lambda>p. sep \<notin> set p) (String_split sep s)"
proof (induction s)
  case Nil
  show ?case by simp
next
  case (Cons c cs)
  then show ?case
    by (cases "String_split sep cs") auto
qed

lemma length_String_split: "length (String_split sep s) = Suc (length (filter (\<lambda>c. c = sep) s))"
proof (induction s)
  case Nil
  show ?case by simp
next
  case (Cons c cs)
  then show ?case
    by (cases "String_split sep cs") auto
qed

text \<open>C10. A change event with a string as its value stores the pieces of that string
  between its commas, one more piece than there are commas, none with a comma in it, and
  joining them with commas gives the string back; a change event with an array stores the
  array. The stored selection is a list of strings in both cases, and it is all the state of
  the component: the state after the event is that list and nothing else.\<close>

theorem handleChange_selection:
  "personName (handleChange (StringValue s) st) = String_split comma s
   \<and> personName (handleChange (ArrayValue a) st) = a
   \<and> handleChange v st =
       \<lparr>personName = (case v of StringValue s \<Rightarrow> String_split comma s | ArrayValue a \<Rightarrow> a)\<rparr>
   \<and> Array_join comma (String_split comma s) = s
   \<and> list_all (\<lambda>p. comma \<notin> set p) (String_split comma s)
   \<and> length (String_split comma s) = Suc (length (filter (\<lambda>c. c = comma) s))
   \<and> personName (handleChange (StringValue (js ''Van Henry,April Tucker'')) st)
       = [js ''Van Henry'', js ''April Tucker'']
   \<and> personName (handleChange (StringValue (js '''')) st) = [js '''']"
proof -
  have a: "personName (handleChange (StringValue s) st) = String_split comma s" for s
    by (simp add: handleChange_def setPersonName_def)
  have b: "personName (handleChange (ArrayValue a) st) = a"
    by (simp add: handleChange_def setPersonName_def)
  have c: "handleChange v st =
       \<lparr>personName = (case v of StringValue s \<Rightarrow> String_split comma s | ArrayValue a \<Rightarrow> a)\<rparr>"
    by (cases st) (simp add: handleChange_def setPersonName_def)
  have d: "String_split comma (js ''Van Henry,April Tucker'') = [js ''Van Henry'', js ''April Tucker'']"
    by (simp add: js_def comma_def)
  have e: "String_split comma (js '''') = [js '''']"
    by (simp add: js_def)
  show ?thesis
    using b c d e by (simp add: a Array_join_split String_split_pieces length_String_split)
qed

end
